theory Spec2Isabelle
  imports Main "HOL-Library.Multiset"
begin

section \<open>JavaScript values\<close>

text \<open>
  The request bodies are JSON. A JSON value is one of the constructors below; arrays and
  objects are kept opaque (\<open>JObject\<close>): the server only tests such a value for
  truthiness and compares it with a string, and an object is truthy and never strictly
  equal to a string. A property that is absent reads as \<open>undefined\<close>, which is
  \<open>None\<close> of the option type.
\<close>

datatype jsval = JNull | JBool bool | JNum int | JStr string | JObject

text \<open>The truthiness test of \<open>!x\<close>, \<open>x && y\<close> and \<open>Boolean(x)\<close>.\<close>

fun truthy :: "jsval option \<Rightarrow> bool" where
  "truthy None = False"
| "truthy (Some JNull) = False"
| "truthy (Some (JBool b)) = b"
| "truthy (Some (JNum n)) = (n \<noteq> 0)"
| "truthy (Some (JStr s)) = (s \<noteq> [])"
| "truthy (Some JObject) = True"

text \<open>
  The result of \<open>parseInt\<close>: \<open>NaN\<close> or an integer. The integer is the mathematical
  value of the digits; zero and minus zero are both \<open>Number 0\<close>.
\<close>

datatype jsnumber = NaN | Number int

fun Boolean_number :: "jsnumber \<Rightarrow> bool" where
  "Boolean_number NaN = False"
| "Boolean_number (Number n) = (n \<noteq> 0)"

datatype error = TypeError | SqlSyntaxError | BcryptError

section \<open>The store and the session registry\<close>

record user =
  u_id :: int
  full_name :: string
  email :: string
  password_hash :: string
  role :: string
  quiz_status :: string

text \<open>
  A row of \<open>questions\<close> as the student routes select it (every column but
  \<open>correct_option\<close>), and the full row.
\<close>

record question_row =
  q_id :: int
  question_text :: string
  option_a :: string
  option_b :: string
  option_c :: string
  option_d :: string

record question = question_row +
  correct_option :: string

record attempt =
  a_id :: int
  user_id :: int
  shuffled_questions :: "int list"
  status :: string
  score :: "int option"
  created_at :: "int option"
  end_time :: "int option"

record store =
  users :: "user list"
  questions :: "question list"
  attempts :: "attempt list"

text \<open>An entry of \<open>sessions\<close>; a field that is \<open>undefined\<close> is \<open>None\<close>.\<close>

record session =
  userId :: "int option"
  session_role :: "string option"

type_synonym sessions = "string \<rightharpoonup> session"

section \<open>Responses\<close>

record result_row =
  res_full_name :: string
  res_email :: string
  res_score :: "int option"
  res_created_at :: "int option"
  res_end_time :: "int option"

record leaderboard_row =
  lb_full_name :: string
  lb_score :: "int option"
  lb_created_at :: "int option"

text \<open>The JSON bodies the routes send, one constructor per shape, fields in source order.\<close>

datatype body =
    Message string
  | LoginBody string string
  | StartBody int "int list"
  | QuestionsBody "question_row list"
  | AdminQuestionsBody "question list"
  | MetricsBody nat nat nat "result_row list"
  | LeaderboardBody "leaderboard_row list"

datatype response = Json nat body | Redirect string

section \<open>Auth helpers\<close>

text \<open>
  \<open>sessions\<close> is a plain object, so \<open>sessions[sessionId]\<close> also finds what every
  object inherits from \<open>Object.prototype\<close>: for those keys the lookup is a truthy value
  whose \<open>userId\<close> and \<open>role\<close> are \<open>undefined\<close>.
\<close>

definition Object_prototype_keys :: "string list" where
  "Object_prototype_keys =
     [''constructor'', ''__proto__'', ''hasOwnProperty'', ''isPrototypeOf'',
      ''propertyIsEnumerable'', ''toLocaleString'', ''toString'', ''valueOf'',
      ''__defineGetter__'', ''__defineSetter__'', ''__lookupGetter__'', ''__lookupSetter__'']"

definition sessions_get :: "sessions \<Rightarrow> string \<Rightarrow> session option" where
  "sessions_get sessions sessionId =
     (case sessions sessionId of
        Some s \<Rightarrow> Some s
      | None \<Rightarrow>
          if sessionId \<in> set Object_prototype_keys
          then Some \<lparr>userId = None, session_role = None\<rparr>
          else None)"

text \<open>
  What the auth helpers read of a request: the \<open>x-session-id\<close> header, the
  \<open>sessionId\<close> query parameter, and whether \<open>req.accepts('html')\<close> holds.
\<close>

record request =
  header_session_id :: "string option"
  query_session_id :: "string option"
  accepts_html :: bool

text \<open>\<open>a || b\<close> on optional strings: \<open>a\<close> when it is a non-empty string, else \<open>b\<close>.\<close>

definition js_or :: "string option \<Rightarrow> string option \<Rightarrow> string option" where
  "js_or a b = (case a of Some (c # cs) \<Rightarrow> a | _ \<Rightarrow> b)"

text \<open>
  \<open>isLoggedIn\<close>: \<open>Inl\<close> is the response that ends the request, \<open>Inr\<close> is
  \<open>next()\<close> with \<open>req.userId\<close> and \<open>req.userRole\<close>.
\<close>

definition isLoggedIn :: "sessions \<Rightarrow> request \<Rightarrow> response + (int option \<times> string option)" where
  "isLoggedIn sessions req =
     (let refuse = (if accepts_html req then Redirect ''/''
                    else Json 401 (Message ''Unauthorized''))
      in case js_or (header_session_id req) (query_session_id req) of
           None \<Rightarrow> Inl refuse
         | Some sessionId \<Rightarrow>
             if sessionId = [] then Inl refuse
             else (case sessions_get sessions sessionId of
                     None \<Rightarrow> Inl refuse
                   | Some s \<Rightarrow> Inr (userId s, session_role s)))"

text \<open>\<open>isAdmin\<close>: the response that ends the request, or \<open>None\<close> for \<open>next()\<close>.\<close>

definition isAdmin :: "string option \<Rightarrow> response option" where
  "isAdmin userRole =
     (if userRole \<noteq> Some ''admin'' then Some (Json 403 (Message ''Admin access required''))
      else None)"

section \<open>Auth routes\<close>

text \<open>Decimal printing of a number inside a template literal.\<close>

definition digit_char :: "nat \<Rightarrow> char" where
  "digit_char d = char_of (48 + d)"

function show_nat :: "nat \<Rightarrow> string" where
  "show_nat n = (if n < 10 then [digit_char n] else show_nat (n div 10) @ [digit_char (n mod 10)])"
  by pat_completeness auto
termination
  by (relation "measure (\<lambda>n. n)") auto

definition show_int :: "int \<Rightarrow> string" where
  "show_int i = (if i < 0 then CHR ''-'' # show_nat (nat (- i)) else show_nat (nat i))"

text \<open>
  \<open>POST /register\<close>. A body field that is missing is \<open>None\<close>. \<open>hash\<close> is
  \<open>bcrypt.hash(_, 10)\<close>; \<open>newId\<close> is the id the store gives the new row. The store
  rejects a second row with the same email (error code 23505).
\<close>

definition falsy_field :: "string option \<Rightarrow> bool" where
  "falsy_field f = (case f of Some (c # cs) \<Rightarrow> False | _ \<Rightarrow> True)"

definition register :: "(string \<Rightarrow> string) \<Rightarrow> int \<Rightarrow> store \<Rightarrow>
    string option \<Rightarrow> string option \<Rightarrow> string option \<Rightarrow> response \<times> store" where
  "register hash newId db fullName email_field password =
     (if falsy_field fullName \<or> falsy_field email_field \<or> falsy_field password
      then (Json 400 (Message ''All fields required''), db)
      else if the email_field \<in> set (map email (users db))
      then (Json 409 (Message ''Email already exists''), db)
      else (Json 200 (Message ''Registered successfully''),
            db\<lparr>users := users db @
              [\<lparr>u_id = newId, full_name = the fullName, email = the email_field,
                password_hash = hash (the password), role = ''student'',
                quiz_status = ''unattempted''\<rparr>]\<rparr>))"

text \<open>
  \<open>POST /login\<close>. \<open>compare\<close> is \<open>bcrypt.compare\<close>, which throws when the password is
  not a string (\<open>None\<close>); \<open>now\<close> is \<open>Date.now()\<close>. \<open>rows[0]\<close> is the first row
  with the email.
\<close>

definition login :: "(string \<Rightarrow> string \<Rightarrow> bool) \<Rightarrow> nat \<Rightarrow> store \<Rightarrow> sessions \<Rightarrow>
    string option \<Rightarrow> string option \<Rightarrow> (error + response) \<times> sessions" where
  "login compare now db sessions email_field password =
     (case find (\<lambda>u. Some (email u) = email_field) (users db) of
        None \<Rightarrow> (Inr (Json 401 (Message ''Invalid login'')), sessions)
      | Some u \<Rightarrow>
          if role u = ''student'' \<and> quiz_status u \<in> set [''completed'', ''disqualified'']
          then (Inr (Json 403 (Message ''Quiz already completed'')), sessions)
          else (case password of
                  None \<Rightarrow> (Inl BcryptError, sessions)
                | Some p \<Rightarrow>
                    if \<not> compare p (password_hash u)
                    then (Inr (Json 401 (Message ''Invalid login'')), sessions)
                    else (let sessionId = ''s_'' @ show_int (u_id u) @ ''_'' @ show_nat now
                          in (Inr (Json 200 (LoginBody sessionId (role u))),
                              sessions(sessionId \<mapsto>
                                \<lparr>userId = Some (u_id u), session_role = Some (role u)\<rparr>)))))"

text \<open>\<open>POST /logout\<close>.\<close>

definition logout :: "sessions \<Rightarrow> string option \<Rightarrow> response \<times> sessions" where
  "logout sessions header =
     (Json 200 (Message ''Logged out''),
      (case header of Some (c # cs) \<Rightarrow> sessions((c # cs) := None) | _ \<Rightarrow> sessions))"

section \<open>Admin metrics and leaderboard\<close>

text \<open>
  \<open>ORDER BY a.score DESC, a.end_time ASC\<close>. The store sorts \<open>NULL\<close> as larger than
  every value: first under \<open>DESC\<close>, last under \<open>ASC\<close>. \<open>desc_le x y\<close> says that
  \<open>x\<close> may stand before \<open>y\<close> under \<open>DESC\<close>, \<open>asc_le\<close> the same under \<open>ASC\<close>.
\<close>

fun desc_le :: "int option \<Rightarrow> int option \<Rightarrow> bool" where
  "desc_le None y = True"
| "desc_le (Some a) None = False"
| "desc_le (Some a) (Some b) = (b \<le> a)"

fun asc_le :: "int option \<Rightarrow> int option \<Rightarrow> bool" where
  "asc_le x None = True"
| "asc_le None (Some b) = False"
| "asc_le (Some a) (Some b) = (a \<le> b)"

definition score_desc_end_time_asc :: "attempt \<times> user \<Rightarrow> attempt \<times> user \<Rightarrow> bool" where
  "score_desc_end_time_asc x y =
     (if score (fst x) = score (fst y) then asc_le (end_time (fst x)) (end_time (fst y))
      else desc_le (score (fst x)) (score (fst y)))"

text \<open>
  Sorting by insertion. Rows that agree on every sort key keep the order they had:
  the store leaves their order open, and nothing below depends on it.
\<close>

fun insert_by :: "('a \<Rightarrow> 'a \<Rightarrow> bool) \<Rightarrow> 'a \<Rightarrow> 'a list \<Rightarrow> 'a list" where
  "insert_by le x [] = [x]"
| "insert_by le x (y # ys) = (if le x y then x # y # ys else y # insert_by le x ys)"

definition order_by :: "('a \<Rightarrow> 'a \<Rightarrow> bool) \<Rightarrow> 'a list \<Rightarrow> 'a list" where
  "order_by le xs = foldr (insert_by le) xs []"

text \<open>
  \<open>FROM "attempts" a JOIN "users" u ON a.user_id = u.id WHERE a.status = 'completed'\<close>
  with the \<open>ORDER BY\<close> of both routes.
\<close>

definition completed_attempts :: "store \<Rightarrow> (attempt \<times> user) list" where
  "completed_attempts db =
     concat (map (\<lambda>a. map (\<lambda>u. (a, u)) (filter (\<lambda>u. user_id a = u_id u) (users db)))
               (filter (\<lambda>a. status a = ''completed'') (attempts db)))"

definition ranked_attempts :: "store \<Rightarrow> (attempt \<times> user) list" where
  "ranked_attempts db = order_by score_desc_end_time_asc (completed_attempts db)"

definition result_of :: "attempt \<times> user \<Rightarrow> result_row" where
  "result_of x =
     \<lparr>res_full_name = full_name (snd x), res_email = email (snd x), res_score = score (fst x),
      res_created_at = created_at (fst x), res_end_time = end_time (fst x)\<rparr>"

definition leaderboard_of :: "attempt \<times> user \<Rightarrow> leaderboard_row" where
  "leaderboard_of x =
     \<lparr>lb_full_name = full_name (snd x), lb_score = score (fst x),
      lb_created_at = created_at (fst x)\<rparr>"

text \<open>The handler of \<open>GET /admin/metrics\<close>.\<close>

definition admin_metrics :: "store \<Rightarrow> response" where
  "admin_metrics db =
     (let totalParticipants = length (users db);
          totalQuestions = length (questions db);
          completedQuizzes = length (filter (\<lambda>a. status a = ''completed'') (attempts db));
          results = map result_of (ranked_attempts db)
      in Json 200 (MetricsBody totalParticipants totalQuestions completedQuizzes results))"

text \<open>The handler of \<open>GET /leaderboard-data\<close>: \<open>LIMIT 10\<close>.\<close>

definition leaderboard_data :: "store \<Rightarrow> response" where
  "leaderboard_data db = Json 200 (LeaderboardBody (map leaderboard_of (take 10 (ranked_attempts db))))"

text \<open>Both routes run \<open>isLoggedIn\<close>, then \<open>isAdmin\<close>, then the handler.\<close>

definition admin_route :: "(store \<Rightarrow> response) \<Rightarrow> sessions \<Rightarrow> store \<Rightarrow> request \<Rightarrow> response" where
  "admin_route handler sessions db req =
     (case isLoggedIn sessions req of
        Inl r \<Rightarrow> r
      | Inr (uid, userRole) \<Rightarrow>
          (case isAdmin userRole of Some r \<Rightarrow> r | None \<Rightarrow> handler db))"

definition get_admin_metrics :: "sessions \<Rightarrow> store \<Rightarrow> request \<Rightarrow> response" where
  "get_admin_metrics = admin_route admin_metrics"

definition get_leaderboard_data :: "sessions \<Rightarrow> store \<Rightarrow> request \<Rightarrow> response" where
  "get_leaderboard_data = admin_route leaderboard_data"

section \<open>Student quiz\<close>

definition QUIZ_LENGTH :: nat where
  "QUIZ_LENGTH = 50"

text \<open>
  The handler of \<open>POST /student/start-quiz\<close>. \<open>shuffle\<close> is what
  \<open>sort(() => 0.5 - Math.random())\<close> makes of the id list, \<open>newId\<close> the id the store
  returns for the new attempt.

  Modelled from the spec: the table definitions are not in the repository. The columns
  the \<open>INSERT\<close> does not name are \<open>NULL\<close>, but for \<open>created_at\<close>, the creation
  time \<open>now\<close>.
\<close>

definition start_quiz :: "(int list \<Rightarrow> int list) \<Rightarrow> int \<Rightarrow> int \<Rightarrow> store \<Rightarrow> int \<Rightarrow> response \<times> store" where
  "start_quiz shuffle newId now db uid =
     (let all = map q_id (questions db)
      in if length all < QUIZ_LENGTH then (Json 400 (Message ''Not enough questions''), db)
         else (let ids = take QUIZ_LENGTH (shuffle all);
                   db1 = db\<lparr>users := map (\<lambda>u. if u_id u = uid
                                                then u\<lparr>quiz_status := ''started''\<rparr> else u) (users db)\<rparr>;
                   db2 = db1\<lparr>attempts := attempts db1 @
                           [\<lparr>a_id = newId, user_id = uid, shuffled_questions = ids,
                             status = ''started'', score = None, created_at = Some now,
                             end_time = None\<rparr>]\<rparr>
               in (Json 200 (StartBody newId ids), db2)))"

subsection \<open>\<open>GET /questions\<close>\<close>

text \<open>\<open>s.split(',')\<close>: the pieces between the commas; never empty.\<close>

fun split_comma :: "string \<Rightarrow> string list" where
  "split_comma [] = [[]]"
| "split_comma (c # cs) =
     (if c = CHR '','' then [] # split_comma cs
      else (case split_comma cs of t # ts \<Rightarrow> (c # t) # ts | [] \<Rightarrow> [[c]]))"

text \<open>
  \<open>parseInt(s)\<close> with no radix: white space is skipped, then a sign, then \<open>0x\<close> or
  \<open>0X\<close> selects radix 16, and the longest run of digits is the value; with no digit
  the result is \<open>NaN\<close>. White space is the ASCII white space here.
\<close>

definition is_space :: "char \<Rightarrow> bool" where
  "is_space c = (c \<in> set [CHR '' '', CHR 0x09, CHR 0x0A, CHR 0x0B, CHR 0x0C, CHR 0x0D])"

definition digit_of :: "nat \<Rightarrow> char \<Rightarrow> nat option" where
  "digit_of radix c =
     (let n = (of_char c :: nat);
          d = (if 48 \<le> n \<and> n \<le> 57 then Some (n - 48)
               else if 97 \<le> n \<and> n \<le> 122 then Some (n - 87)
               else if 65 \<le> n \<and> n \<le> 90 then Some (n - 55)
               else None)
      in case d of Some v \<Rightarrow> (if v < radix then Some v else None) | None \<Rightarrow> None)"

definition leading_digits :: "nat \<Rightarrow> string \<Rightarrow> nat list" where
  "leading_digits radix s = map (\<lambda>c. the (digit_of radix c)) (takeWhile (\<lambda>c. digit_of radix c \<noteq> None) s)"

definition digits_value :: "nat \<Rightarrow> nat list \<Rightarrow> nat" where
  "digits_value radix ds = foldl (\<lambda>acc d. acc * radix + d) 0 ds"

definition parseInt :: "string \<Rightarrow> jsnumber" where
  "parseInt s =
     (let s1 = dropWhile is_space s;
          negative = (case s1 of c # r \<Rightarrow> c = CHR ''-'' | [] \<Rightarrow> False);
          s2 = (case s1 of c # r \<Rightarrow> if c = CHR ''-'' \<or> c = CHR ''+'' then r else s1 | [] \<Rightarrow> s1);
          hex = (case s2 of c # x # r \<Rightarrow> c = CHR ''0'' \<and> (x = CHR ''x'' \<or> x = CHR ''X'') | _ \<Rightarrow> False);
          radix = (if hex then 16 else 10);
          s3 = (if hex then drop 2 s2 else s2);
          ds = leading_digits radix s3
      in if ds = [] then NaN
         else Number ((if negative then - 1 else 1) * int (digits_value radix ds)))"

text \<open>\<open>req.query.ids.split(',').map(id => parseInt(id)).filter(Boolean)\<close>\<close>

definition idArray_of :: "string \<Rightarrow> jsnumber list" where
  "idArray_of ids = filter Boolean_number (map parseInt (split_comma ids))"

text \<open>
  The \<open>SELECT ... WHERE id IN (...)\<close> of the route. With no id the statement reads
  \<open>IN ()\<close>, which the store rejects. The store returns the rows in an order of its
  own: \<open>row_order\<close>.
\<close>

definition select_questions :: "(question_row list \<Rightarrow> question_row list) \<Rightarrow> store \<Rightarrow>
    jsnumber list \<Rightarrow> error + question_row list" where
  "select_questions row_order db idArray =
     (if idArray = [] then Inl SqlSyntaxError
      else Inr (row_order (map question_row.truncate
                  (filter (\<lambda>q. Number (q_id q) \<in> set idArray) (questions db)))))"

text \<open>
  \<open>idArray.map(id => result.rows.find(q => q.id === id))\<close> and \<open>filter(Boolean)\<close>:
  \<open>List.find\<close> is \<open>None\<close> where \<open>find\<close> is \<open>undefined\<close>.
\<close>

definition ordered_rows :: "jsnumber list \<Rightarrow> question_row list \<Rightarrow> question_row list" where
  "ordered_rows idArray rows =
     map the (filter (\<lambda>r. r \<noteq> None)
       (map (\<lambda>id. find (\<lambda>q. Number (q_id q) = id) rows) idArray))"

text \<open>
  The handler of \<open>GET /questions\<close>; \<open>ids\<close> is \<open>req.query.ids\<close>, \<open>None\<close> when the
  query has no such parameter.
\<close>

definition get_questions :: "(question_row list \<Rightarrow> question_row list) \<Rightarrow> store \<Rightarrow>
    string option \<Rightarrow> error + response" where
  "get_questions row_order db ids =
     (case ids of
        None \<Rightarrow> Inl TypeError
      | Some s \<Rightarrow>
          (let idArray = idArray_of s
           in case select_questions row_order db idArray of
                Inl e \<Rightarrow> Inl e
              | Inr rows \<Rightarrow> Inr (Json 200 (QuestionsBody (ordered_rows idArray rows)))))"

subsection \<open>\<open>POST /student/submit-answers\<close>\<close>

text \<open>The attempt rows with the id, the owner and the status \<open>started\<close>.\<close>

definition select_started :: "store \<Rightarrow> int \<Rightarrow> int \<Rightarrow> attempt list" where
  "select_started db attemptId uid =
     filter (\<lambda>a. a_id a = attemptId \<and> user_id a = uid \<and> status a = ''started'') (attempts db)"

text \<open>\<open>SELECT id,correct_option FROM "questions" WHERE id IN (...)\<close>\<close>

definition select_correct :: "store \<Rightarrow> int list \<Rightarrow> error + (int \<times> string) list" where
  "select_correct db ids =
     (if ids = [] then Inl SqlSyntaxError
      else Inr (map (\<lambda>q. (q_id q, correct_option q))
                  (filter (\<lambda>q. q_id q \<in> set ids) (questions db))))"

text \<open>\<open>correct.forEach(q => map[q.id] = q.correct_option)\<close>\<close>

definition correct_map :: "(int \<times> string) list \<Rightarrow> (int \<rightharpoonup> string)" where
  "correct_map correct = fold (\<lambda>q m. m(fst q \<mapsto> snd q)) correct Map.empty"

text \<open>
  The scoring loop. \<open>answers[id]\<close> and \<open>map[id]\<close> are \<open>None\<close> when
  \<open>undefined\<close>; \<open>===\<close> is equality of the two optional values.
\<close>

definition count_score :: "int list \<Rightarrow> (int \<rightharpoonup> jsval) \<Rightarrow> (int \<rightharpoonup> string) \<Rightarrow> int" where
  "count_score ids answers m =
     fold (\<lambda>id score. if truthy (answers id) \<and> answers id = map_option JStr (m id)
                        then score + 1 else score) ids 0"

text \<open>
  The handler. \<open>answers\<close> is \<open>None\<close> when the body has none (\<open>undefined\<close> or
  \<open>null\<close>): reading \<open>answers[id]\<close> then throws. \<open>now\<close> is the store's \<open>NOW()\<close>.
\<close>

definition submit_answers :: "int \<Rightarrow> store \<Rightarrow> int \<Rightarrow> int \<Rightarrow> (int \<rightharpoonup> jsval) option \<Rightarrow>
    (error + response) \<times> store" where
  "submit_answers now db uid attemptId answers =
     (case select_started db attemptId uid of
        [] \<Rightarrow> (Inr (Json 200 (Message ''Quiz already submitted.'')), db)
      | a # rest \<Rightarrow>
          (let ids = shuffled_questions a
           in case select_correct db ids of
                Inl e \<Rightarrow> (Inl e, db)
              | Inr correct \<Rightarrow>
                  (case answers of
                     None \<Rightarrow> (Inl TypeError, db)
                   | Some ans \<Rightarrow>
                       (let sc = count_score ids ans (correct_map correct);
                            db1 = db\<lparr>attempts := map (\<lambda>a. if a_id a = attemptId
                                      then a\<lparr>score := Some sc, status := ''completed'',
                                             end_time := Some now\<rparr>
                                      else a) (attempts db)\<rparr>;
                            db2 = db1\<lparr>users := map (\<lambda>u. if u_id u = uid
                                      then u\<lparr>quiz_status := ''completed''\<rparr> else u) (users db1)\<rparr>
                        in (Inr (Json 200 (Message ''Quiz submitted successfully!'')), db2)))))"

section \<open>Notions of the specification and example data\<close>

text \<open>
  The score as the specification words it: the number of ids of the attempt's list whose
  submitted answer equals the correct option of the question with that id.
\<close>

definition exact_matches :: "question list \<Rightarrow> int list \<Rightarrow> (int \<rightharpoonup> jsval) \<Rightarrow> int" where
  "exact_matches qs ids answers =
     int (length (filter (\<lambda>i. \<exists>q\<in>set qs. q_id q = i \<and> answers i = Some (JStr (correct_option q))) ids))"

text \<open>A store with every score blanked: two stores that agree on it differ in scores only.\<close>

definition erase_scores :: "store \<Rightarrow> store" where
  "erase_scores db = db\<lparr>attempts := map (\<lambda>a. a\<lparr>score := None\<rparr>) (attempts db)\<rparr>"

text \<open>
  What the response of \<open>POST /student/submit-answers\<close> depends on: the question list of
  the started attempt found (\<open>None\<close> when there is none), and whether the body has
  answers.
\<close>

definition submit_response :: "int list option \<Rightarrow> bool \<Rightarrow> error + response" where
  "submit_response ids has_answers =
     (case ids of
        None \<Rightarrow> Inr (Json 200 (Message ''Quiz already submitted.''))
      | Some l \<Rightarrow>
          if l = [] then Inl SqlSyntaxError
          else if has_answers then Inr (Json 200 (Message ''Quiz submitted successfully!''))
          else Inl TypeError)"

definition example_user :: "int \<Rightarrow> string \<Rightarrow> string \<Rightarrow> string \<Rightarrow> user" where
  "example_user i e r st =
     \<lparr>u_id = i, full_name = ''N'', email = e, password_hash = ''secret'', role = r,
      quiz_status = st\<rparr>"

definition example_question :: "int \<Rightarrow> string \<Rightarrow> question" where
  "example_question i c =
     \<lparr>q_id = i, question_text = ''Q'', option_a = ''A'', option_b = ''B'', option_c = ''C'',
      option_d = ''D'', correct_option = c\<rparr>"

definition example_attempt :: "int \<Rightarrow> int \<Rightarrow> int list \<Rightarrow> string \<Rightarrow> int option \<Rightarrow> int option \<Rightarrow> attempt" where
  "example_attempt i u ids st sc e =
     \<lparr>a_id = i, user_id = u, shuffled_questions = ids, status = st, score = sc,
      created_at = Some 0, end_time = e\<rparr>"

text \<open>Three completed attempts, two of them with the same score, and one started.\<close>

definition ranking_store :: store where
  "ranking_store =
     \<lparr>users = [example_user 1 ''a@x'' ''student'' ''completed'',
               example_user 2 ''b@x'' ''student'' ''completed'',
               example_user 3 ''c@x'' ''student'' ''completed'',
               example_user 4 ''d@x'' ''student'' ''started''],
      questions = [],
      attempts = [example_attempt 1 1 [1] ''completed'' (Some 5) (Some 30),
                  example_attempt 2 2 [1] ''completed'' (Some 7) (Some 20),
                  example_attempt 3 4 [1] ''started'' None None,
                  example_attempt 4 3 [1] ''completed'' (Some 5) (Some 10)]\<rparr>"

text \<open>
  One student with a started attempt over the questions 1, 2, 3, whose correct options
  are A, B, C.
\<close>

definition quiz_store :: store where
  "quiz_store =
     \<lparr>users = [example_user 1 ''a@x'' ''student'' ''started''],
      questions = [example_question 1 ''A'', example_question 2 ''B'', example_question 3 ''C''],
      attempts = [example_attempt 1 1 [1, 2, 3] ''started'' None None]\<rparr>"

text \<open>The submitted answers \<open>{1: A, 2: X, 3: C}\<close>, and the store once they are scored at time 5.\<close>

definition example_answers :: "int \<rightharpoonup> jsval" where
  "example_answers = [1 \<mapsto> JStr ''A'', 2 \<mapsto> JStr ''X'', 3 \<mapsto> JStr ''C'']"

definition quiz_store_submitted :: store where
  "quiz_store_submitted =
     \<lparr>users = [example_user 1 ''a@x'' ''student'' ''completed''],
      questions = [example_question 1 ''A'', example_question 2 ''B'', example_question 3 ''C''],
      attempts = [example_attempt 1 1 [1, 2, 3] ''completed'' (Some 2) (Some 5)]\<rparr>"

text \<open>A question whose correct option is the empty string, answered with the empty string.\<close>

definition blank_store :: store where
  "blank_store =
     \<lparr>users = [example_user 1 ''a@x'' ''student'' ''started''],
      questions = [example_question 1 []],
      attempts = [example_attempt 1 1 [1] ''started'' None None]\<rparr>"

definition blank_answers :: "int \<rightharpoonup> jsval" where
  "blank_answers = [1 \<mapsto> JStr []]"

text \<open>A student who has completed the quiz, one who has not attempted it, and an admin.\<close>

definition login_store :: store where
  "login_store =
     \<lparr>users = [example_user 1 ''a@x'' ''student'' ''completed'',
               example_user 2 ''b@x'' ''student'' ''unattempted'',
               example_user 3 ''c@x'' ''admin'' ''unattempted''],
      questions = [],
      attempts = []\<rparr>"

text \<open>A stand-in for \<open>bcrypt.compare\<close> in the examples: the hash is the password.\<close>

definition example_compare :: "string \<Rightarrow> string \<Rightarrow> bool" where
  "example_compare p h = (p = h)"

text \<open>A pool that holds a question with the id 0.\<close>

definition zero_store :: store where
  "zero_store =
     \<lparr>users = [],
      questions = [example_question 0 ''A'', example_question 7 ''B''],
      attempts = []\<rparr>"

section \<open>Ordering of the admin results\<close>

lemma mset_insert_by: "mset (insert_by le x xs) = add_mset x (mset xs)"
  by (induction xs) auto

lemma mset_order_by: "mset (order_by le xs) = mset xs"
  by (induction xs) (auto simp: order_by_def mset_insert_by)

lemma set_insert_by: "set (insert_by le x xs) = insert x (set xs)"
  by (induction xs) auto

lemma sorted_insert_by:
  assumes tot: "\<And>a b. le a b \<or> le b a" and tr: "\<And>a b c. le a b \<Longrightarrow> le b c \<Longrightarrow> le a c"
  shows "sorted_wrt le xs \<Longrightarrow> sorted_wrt le (insert_by le x xs)"
proof (induction xs)
  case Nil
  then show ?case by simp
next
  case (Cons y ys)
  have ys: "sorted_wrt le ys" and y: "\<forall>z\<in>set ys. le y z"
    using Cons.prems by simp_all
  show ?case
  proof (cases "le x y")
    case True
    have "\<forall>z\<in>set ys. le x z"
    proof
      fix z assume "z \<in> set ys"
      with y have "le y z" by blast
      with True show "le x z" by (rule tr)
    qed
    with True ys y show ?thesis by simp
  next
    case False
    with tot [of x y] have yx: "le y x" by blast
    have "sorted_wrt le (insert_by le x ys)" using Cons.IH ys by blast
    moreover have "\<forall>z\<in>set (insert_by le x ys). le y z"
      using y yx by (simp add: set_insert_by)
    ultimately show ?thesis using False by simp
  qed
qed

lemma sorted_order_by:
  assumes tot: "\<And>a b. le a b \<or> le b a" and tr: "\<And>a b c. le a b \<Longrightarrow> le b c \<Longrightarrow> le a c"
  shows "sorted_wrt le (order_by le xs)"
proof (induction xs)
  case Nil
  show ?case by (simp add: order_by_def)
next
  case (Cons x xs)
  have "order_by le (x # xs) = insert_by le x (order_by le xs)"
    by (simp add: order_by_def)
  with sorted_insert_by [OF tot tr Cons] show ?case by simp
qed

lemma desc_le_refl: "desc_le a a"
  by (cases a) auto

lemma desc_le_total: "desc_le a b \<or> desc_le b a"
  by (cases a; cases b) auto

lemma desc_le_trans: "desc_le a b \<Longrightarrow> desc_le b c \<Longrightarrow> desc_le a c"
  by (cases a; cases b; cases c) auto

lemma desc_le_antisym: "desc_le a b \<Longrightarrow> desc_le b a \<Longrightarrow> a = b"
  by (cases a; cases b) auto

lemma asc_le_total: "asc_le a b \<or> asc_le b a"
  by (cases a; cases b) auto

lemma asc_le_trans: "asc_le a b \<Longrightarrow> asc_le b c \<Longrightarrow> asc_le a c"
  by (cases a; cases b; cases c) auto

lemma rank_total: "score_desc_end_time_asc x y \<or> score_desc_end_time_asc y x"
proof (cases "score (fst x) = score (fst y)")
  case True
  with asc_le_total [of "end_time (fst x)" "end_time (fst y)"] show ?thesis
    by (simp add: score_desc_end_time_asc_def)
next
  case False
  with desc_le_total [of "score (fst x)" "score (fst y)"] show ?thesis
    by (simp add: score_desc_end_time_asc_def)
qed

lemma rank_desc:
  assumes "score_desc_end_time_asc x y"
  shows "desc_le (score (fst x)) (score (fst y))"
  using assms desc_le_refl [of "score (fst y)"]
  by (simp add: score_desc_end_time_asc_def split: if_splits)

lemma rank_trans:
  assumes xy: "score_desc_end_time_asc x y" and yz: "score_desc_end_time_asc y z"
  shows "score_desc_end_time_asc x z"
proof -
  note dxy = rank_desc [OF xy] and dyz = rank_desc [OF yz]
  show ?thesis
  proof (cases "score (fst x) = score (fst z)")
    case False
    with desc_le_trans [OF dxy dyz] show ?thesis by (simp add: score_desc_end_time_asc_def)
  next
    case True
    with dxy dyz have "score (fst x) = score (fst y)"
      using desc_le_antisym by metis
    with True xy yz asc_le_trans show ?thesis
      by (simp add: score_desc_end_time_asc_def)
  qed
qed

lemma sorted_ranked_attempts: "sorted_wrt score_desc_end_time_asc (ranked_attempts db)"
  unfolding ranked_attempts_def by (rule sorted_order_by [OF rank_total rank_trans])

text \<open>
  Claim C7. The results of \<open>GET /admin/metrics\<close> are the completed attempts (joined with
  their users), each once, ordered by score descending and, among equal scores, by end
  time ascending: of two rows, the earlier one has the score that is no smaller, and
  with equal scores the end time that is no later. \<open>GET /leaderboard-data\<close> sends the
  first ten rows of the same ranking.
\<close>

theorem admin_results_ranking:
  "admin_metrics db =
     Json 200 (MetricsBody (length (users db)) (length (questions db))
       (length (filter (\<lambda>a. status a = ''completed'') (attempts db)))
       (map result_of (ranked_attempts db)))
   \<and> leaderboard_data db = Json 200 (LeaderboardBody (map leaderboard_of (take 10 (ranked_attempts db))))
   \<and> mset (ranked_attempts db) = mset (completed_attempts db)
   \<and> (\<forall>i j. i < j \<and> j < length (ranked_attempts db) \<longrightarrow>
        (let a = fst (ranked_attempts db ! i); b = fst (ranked_attempts db ! j)
         in desc_le (score a) (score b)
            \<and> (score a = score b \<longrightarrow> asc_le (end_time a) (end_time b))
            \<and> (\<forall>s t. score a = Some s \<and> score b = Some t \<longrightarrow> t \<le> s)
            \<and> (\<forall>e f. score a = score b \<and> end_time a = Some e \<and> end_time b = Some f \<longrightarrow> e \<le> f)))"
proof -
  have ranked: "\<forall>i j. i < j \<and> j < length (ranked_attempts db) \<longrightarrow>
        (let a = fst (ranked_attempts db ! i); b = fst (ranked_attempts db ! j)
         in desc_le (score a) (score b)
            \<and> (score a = score b \<longrightarrow> asc_le (end_time a) (end_time b))
            \<and> (\<forall>s t. score a = Some s \<and> score b = Some t \<longrightarrow> t \<le> s)
            \<and> (\<forall>e f. score a = score b \<and> end_time a = Some e \<and> end_time b = Some f \<longrightarrow> e \<le> f))"
  proof (intro allI impI)
    fix i j assume ij: "i < j \<and> j < length (ranked_attempts db)"
    let ?x = "ranked_attempts db ! i" and ?y = "ranked_attempts db ! j"
    have le: "score_desc_end_time_asc ?x ?y"
      using sorted_ranked_attempts [of db] ij by (simp add: sorted_wrt_iff_nth_less)
    have d: "desc_le (score (fst ?x)) (score (fst ?y))" by (rule rank_desc [OF le])
    have a: "score (fst ?x) = score (fst ?y) \<longrightarrow> asc_le (end_time (fst ?x)) (end_time (fst ?y))"
      using le by (simp add: score_desc_end_time_asc_def)
    have d': "\<forall>s t. score (fst ?x) = Some s \<and> score (fst ?y) = Some t \<longrightarrow> t \<le> s"
      using d by auto
    have a': "\<forall>e f. score (fst ?x) = score (fst ?y) \<and> end_time (fst ?x) = Some e
                \<and> end_time (fst ?y) = Some f \<longrightarrow> e \<le> f"
      using a by auto
    from d a d' a' show "let a = fst ?x; b = fst ?y
         in desc_le (score a) (score b)
            \<and> (score a = score b \<longrightarrow> asc_le (end_time a) (end_time b))
            \<and> (\<forall>s t. score a = Some s \<and> score b = Some t \<longrightarrow> t \<le> s)
            \<and> (\<forall>e f. score a = score b \<and> end_time a = Some e \<and> end_time b = Some f \<longrightarrow> e \<le> f)"
      unfolding Let_def by blast
  qed
  have perm: "mset (ranked_attempts db) = mset (completed_attempts db)"
    by (simp add: ranked_attempts_def mset_order_by)
  have m: "admin_metrics db =
     Json 200 (MetricsBody (length (users db)) (length (questions db))
       (length (filter (\<lambda>a. status a = ''completed'') (attempts db)))
       (map result_of (ranked_attempts db)))"
    by (simp add: admin_metrics_def)
  have l: "leaderboard_data db = Json 200 (LeaderboardBody (map leaderboard_of (take 10 (ranked_attempts db))))"
    by (simp add: leaderboard_data_def)
  from m l perm ranked show ?thesis by blast
qed

theorem admin_results_ranking_witness:
  "map (\<lambda>x. (score (fst x), end_time (fst x))) (ranked_attempts ranking_store)
     = [(Some 7, Some 20), (Some 5, Some 10), (Some 5, Some 30)]
   \<and> (1::nat) < 2 \<and> 2 < length (ranked_attempts ranking_store)
   \<and> asc_le (end_time (fst (ranked_attempts ranking_store ! 1)))
        (end_time (fst (ranked_attempts ranking_store ! 2)))"
proof -
  have r: "map (\<lambda>x. (score (fst x), end_time (fst x))) (ranked_attempts ranking_store)
     = [(Some 7, Some 20), (Some 5, Some 10), (Some 5, Some 30)]"
    by code_simp
  have len: "length (ranked_attempts ranking_store) = 3"
    using arg_cong [OF r, of length] by simp
  have ij: "(1::nat) < 2 \<and> 2 < length (ranked_attempts ranking_store)"
    using len by simp
  have eq: "score (fst (ranked_attempts ranking_store ! 1)) = score (fst (ranked_attempts ranking_store ! 2))"
    by code_simp
  note ranked = admin_results_ranking [of ranking_store, THEN conjunct2, THEN conjunct2, THEN conjunct2]
  from ranked [rule_format, OF ij] eq
  have "asc_le (end_time (fst (ranked_attempts ranking_store ! 1)))
        (end_time (fst (ranked_attempts ranking_store ! 2)))"
    by (simp add: Let_def)
  with r ij show ?thesis by simp
qed

section \<open>Starting a quiz and submitting answers\<close>

text \<open>
  Claim C8. With fewer than \<open>QUIZ_LENGTH\<close> = 50 questions in the pool,
  \<open>POST /student/start-quiz\<close> answers 400 and leaves the store as it was: no attempt is
  created and no \<open>quiz_status\<close> changes.
\<close>

theorem start_quiz_not_enough_questions:
  "QUIZ_LENGTH = 50
   \<and> (length (questions db) < 50 \<longrightarrow>
        start_quiz shuffle newId now db uid = (Json 400 (Message ''Not enough questions''), db))"
  by (simp add: start_quiz_def QUIZ_LENGTH_def)

theorem start_quiz_not_enough_questions_witness:
  "length (questions quiz_store) < 50
   \<and> start_quiz rev 2 0 quiz_store 1 = (Json 400 (Message ''Not enough questions''), quiz_store)"
proof -
  have l: "length (questions quiz_store) < 50"
    by (simp add: quiz_store_def)
  from start_quiz_not_enough_questions [of quiz_store rev 2 0 1] l show ?thesis by simp
qed



text \<open>What a call that finds a started attempt and runs to its end does.\<close>

lemma submit_answers_started:
  assumes "select_started db attemptId uid = a # rest"
    and "shuffled_questions a \<noteq> []"
  shows "submit_answers now db uid attemptId (Some ans) =
     (Inr (Json 200 (Message ''Quiz submitted successfully!'')),
      db\<lparr>attempts := map (\<lambda>x. if a_id x = attemptId
                then x\<lparr>score := Some (count_score (shuffled_questions a) ans
                           (correct_map (map (\<lambda>q. (q_id q, correct_option q))
                              (filter (\<lambda>q. q_id q \<in> set (shuffled_questions a)) (questions db))))),
                       status := ''completed'', end_time := Some now\<rparr>
                else x) (attempts db),
         users := map (\<lambda>u. if u_id u = uid then u\<lparr>quiz_status := ''completed''\<rparr> else u) (users db)\<rparr>)"
  using assms by (simp add: submit_answers_def select_correct_def Let_def)








section \<open>The score\<close>

lemma count_fold_filter:
  "fold (\<lambda>i (s::int). if P i then s + 1 else s) ids n = n + int (length (filter P ids))"
  by (induction ids arbitrary: n) simp_all

lemma count_score_filter:
  "count_score ids answers m =
     int (length (filter (\<lambda>i. truthy (answers i) \<and> answers i = map_option JStr (m i)) ids))"
  by (simp add: count_score_def count_fold_filter)

lemma fold_upd_map_of:
  "fold (\<lambda>q m. m(fst q \<mapsto> snd q)) xs m0 = m0 ++ map_of (rev xs)"
proof (induction xs arbitrary: m0)
  case Nil
  show ?case by simp
next
  case (Cons x xs)
  have "fold (\<lambda>q m. m(fst q \<mapsto> snd q)) (x # xs) m0
          = fold (\<lambda>q m. m(fst q \<mapsto> snd q)) xs (m0(fst x \<mapsto> snd x))"
    by (simp del: fun_upd_apply)
  also have "\<dots> = m0(fst x \<mapsto> snd x) ++ map_of (rev xs)"
    by (rule Cons.IH)
  also have "\<dots> = m0 ++ (map_of [x] ++ map_of (rev xs))"
    by (rule ext) (simp add: map_add_def split: option.split)
  also have "\<dots> = m0 ++ map_of (rev (x # xs))"
    by (simp add: map_of_append)
  finally show ?case .
qed

lemma correct_map_Some_iff:
  assumes "distinct (map fst correct)"
  shows "correct_map correct i = Some c \<longleftrightarrow> (i, c) \<in> set correct"
proof -
  have "distinct (map fst (rev correct))" using assms by (simp add: rev_map [symmetric])
  then have "map_of (rev correct) i = Some c \<longleftrightarrow> (i, c) \<in> set (rev correct)"
    by (rule map_of_eq_Some_iff)
  then show ?thesis by (simp add: correct_map_def fold_upd_map_of)
qed

lemma truthy_JStr: "truthy (Some (JStr s)) \<longleftrightarrow> s \<noteq> []"
  by simp

lemma scored_iff:
  assumes d: "distinct (map q_id qs)" and i: "i \<in> set ids"
  shows "(truthy (answers i) \<and> answers i = map_option JStr
            (correct_map (map (\<lambda>q. (q_id q, correct_option q)) (filter (\<lambda>q. q_id q \<in> set ids) qs)) i))
         \<longleftrightarrow> (\<exists>q\<in>set qs. q_id q = i \<and> correct_option q \<noteq> []
                \<and> answers i = Some (JStr (correct_option q)))"
    (is "?L \<longleftrightarrow> ?R")
proof -
  let ?rows = "map (\<lambda>q. (q_id q, correct_option q)) (filter (\<lambda>q. q_id q \<in> set ids) qs)"
  have "distinct (map q_id (filter (\<lambda>q. q_id q \<in> set ids) qs))"
    using d by (rule distinct_map_filter)
  then have dr: "distinct (map fst ?rows)" by (simp add: comp_def)
  have look: "correct_map ?rows i = Some c \<longleftrightarrow> (\<exists>q\<in>set qs. q_id q = i \<and> correct_option q = c)" for c
    using i by (auto simp: correct_map_Some_iff [OF dr])
  show ?thesis
  proof
    assume l: ?L
    show ?R
    proof (cases "correct_map ?rows i")
      case None
      with l show ?thesis by auto
    next
      case (Some c)
      with l have a: "answers i = Some (JStr c)" and "truthy (Some (JStr c))" by auto
      then have "c \<noteq> []" by simp
      moreover from Some look obtain q where "q \<in> set qs" "q_id q = i" "correct_option q = c"
        by blast
      ultimately show ?thesis using a by blast
    qed
  next
    assume ?R
    then obtain q where q: "q \<in> set qs" "q_id q = i" "correct_option q \<noteq> []"
      "answers i = Some (JStr (correct_option q))" by blast
    then have "correct_map ?rows i = Some (correct_option q)" using look by blast
    with q show ?L by simp
  qed
qed

lemma filter_distinct_key:
  assumes "distinct (map f xs)" and "a \<in> set xs" and "P a" and "\<And>x. P x \<Longrightarrow> f x = f a"
  shows "filter P xs = [a]"
  using assms(1,2)
proof (induction xs)
  case Nil
  then show ?case by simp
next
  case (Cons x xs)
  show ?case
  proof (cases "x = a")
    case True
    then have "\<forall>y\<in>set xs. \<not> P y"
      using Cons.prems(1) assms(4) by (metis distinct.simps(2) image_eqI list.simps(9) set_map)
    then have "filter P xs = []" by (simp add: filter_empty_conv)
    with True assms(3) show ?thesis by simp
  next
    case False
    then have "a \<in> set xs" using Cons.prems(2) by simp
    moreover have "distinct (map f xs)" using Cons.prems(1) by simp
    ultimately have "filter P xs = [a]" by (rule Cons.IH [rotated])
    moreover have "\<not> P x"
    proof
      assume "P x"
      then have "f x = f a" by (rule assms(4))
      with \<open>a \<in> set xs\<close> Cons.prems(1) show False by (metis distinct.simps(2) image_eqI list.simps(9) set_map)
    qed
    ultimately show ?thesis by simp
  qed
qed


lemma select_started_unique:
  assumes "a \<in> set (attempts db)" and "a_id a = attemptId" and "user_id a = uid"
    and "status a = ''started''" and "distinct (map a_id (attempts db))"
  shows "select_started db attemptId uid = [a]"
  unfolding select_started_def
  by (rule filter_distinct_key [where f = a_id]) (use assms in simp_all)

text \<open>
  Claim C1, as amended. For a started attempt with a non-empty question list and any
  submitted answers map, \<open>POST /student/submit-answers\<close> replies with its success
  message and stores as score the number of ids of the list whose submitted answer is a
  non-empty string equal to the correct option of the question with that id. An id
  with no submitted answer adds nothing and raises no error. When no correct option in
  the store is the empty string, that number is the number of exact matches.
\<close>

theorem submit_answers_score:
  assumes "a \<in> set (attempts db)" and "a_id a = attemptId" and "user_id a = uid"
    and "status a = ''started''" and "distinct (map a_id (attempts db))"
    and "shuffled_questions a \<noteq> []"
    and "distinct (map q_id (questions db))"
  shows "let sc = int (length (filter
                   (\<lambda>i. \<exists>q\<in>set (questions db). q_id q = i \<and> correct_option q \<noteq> []
                          \<and> answers i = Some (JStr (correct_option q)))
                   (shuffled_questions a)))
         in submit_answers now db uid attemptId (Some answers) =
              (Inr (Json 200 (Message ''Quiz submitted successfully!'')),
               db\<lparr>attempts := map (\<lambda>x. if a_id x = attemptId
                       then x\<lparr>score := Some sc, status := ''completed'', end_time := Some now\<rparr>
                       else x) (attempts db),
                   users := map (\<lambda>u. if u_id u = uid then u\<lparr>quiz_status := ''completed''\<rparr> else u)
                              (users db)\<rparr>)
            \<and> ((\<forall>q\<in>set (questions db). correct_option q \<noteq> []) \<longrightarrow>
                 sc = exact_matches (questions db) (shuffled_questions a) answers)"
proof -
  let ?ids = "shuffled_questions a"
  let ?P = "\<lambda>i. \<exists>q\<in>set (questions db). q_id q = i \<and> correct_option q \<noteq> []
                          \<and> answers i = Some (JStr (correct_option q))"
  let ?m = "correct_map (map (\<lambda>q. (q_id q, correct_option q))
              (filter (\<lambda>q. q_id q \<in> set ?ids) (questions db)))"
  have sel: "select_started db attemptId uid = a # []"
    using assms(1-5) by (rule select_started_unique)
  have "filter (\<lambda>i. truthy (answers i) \<and> answers i = map_option JStr (?m i)) ?ids = filter ?P ?ids"
    by (rule filter_cong [OF refl]) (rule scored_iff [OF assms(7)])
  then have sc: "count_score ?ids answers ?m = int (length (filter ?P ?ids))"
    by (simp only: count_score_filter)
  have run: "submit_answers now db uid attemptId (Some answers) =
              (Inr (Json 200 (Message ''Quiz submitted successfully!'')),
               db\<lparr>attempts := map (\<lambda>x. if a_id x = attemptId
                       then x\<lparr>score := Some (int (length (filter ?P ?ids))),
                              status := ''completed'', end_time := Some now\<rparr>
                       else x) (attempts db),
                   users := map (\<lambda>u. if u_id u = uid then u\<lparr>quiz_status := ''completed''\<rparr> else u)
                              (users db)\<rparr>)"
    using submit_answers_started [OF sel assms(6), of now answers] by (simp only: sc)
  have ex: "int (length (filter ?P ?ids)) = exact_matches (questions db) ?ids answers"
    if "\<forall>q\<in>set (questions db). correct_option q \<noteq> []"
  proof -
    have "filter ?P ?ids = filter (\<lambda>i. \<exists>q\<in>set (questions db). q_id q = i
                  \<and> answers i = Some (JStr (correct_option q))) ?ids"
      using that by (intro filter_cong [OF refl]) blast
    then show ?thesis by (simp only: exact_matches_def)
  qed
  from run ex show ?thesis unfolding Let_def by blast
qed

theorem submit_answers_score_witness:
  "submit_answers 5 quiz_store 1 1 (Some example_answers) =
     (Inr (Json 200 (Message ''Quiz submitted successfully!'')), quiz_store_submitted)
   \<and> map score (attempts quiz_store_submitted) = [Some 2]
   \<and> exact_matches (questions quiz_store) [1, 2, 3] example_answers = 2"
proof -
  let ?a = "example_attempt 1 1 [1, 2, 3] ''started'' None None"
  have h: "?a \<in> set (attempts quiz_store)" "a_id ?a = 1" "user_id ?a = 1" "status ?a = ''started''"
    "distinct (map a_id (attempts quiz_store))" "shuffled_questions ?a \<noteq> []"
    "distinct (map q_id (questions quiz_store))"
    by (simp_all add: quiz_store_def example_attempt_def example_question_def)
  have ne: "\<forall>q\<in>set (questions quiz_store). correct_option q \<noteq> []"
    by (simp add: quiz_store_def example_question_def)
  have ex: "exact_matches (questions quiz_store) [1, 2, 3] example_answers = 2"
    by (simp add: exact_matches_def quiz_store_def example_question_def example_answers_def)
  have ids: "shuffled_questions ?a = [1, 2, 3]"
    by (simp add: example_attempt_def)
  have sc: "map score (attempts quiz_store_submitted) = [Some 2]"
    by (simp add: quiz_store_submitted_def example_attempt_def)
  have upd: "quiz_store\<lparr>attempts := map (\<lambda>x. if a_id x = 1
                       then x\<lparr>score := Some 2, status := ''completed'', end_time := Some 5\<rparr>
                       else x) (attempts quiz_store),
                   users := map (\<lambda>u. if u_id u = 1 then u\<lparr>quiz_status := ''completed''\<rparr> else u)
                              (users quiz_store)\<rparr> = quiz_store_submitted"
    by (simp add: quiz_store_def quiz_store_submitted_def example_attempt_def example_user_def)
  note t = submit_answers_score [OF h, of example_answers 5, unfolded Let_def ids]
  from t [THEN conjunct2] ne
  have "int (length (filter
                   (\<lambda>i. \<exists>q\<in>set (questions quiz_store). q_id q = i \<and> correct_option q \<noteq> []
                          \<and> example_answers i = Some (JStr (correct_option q)))
                   [1, 2, 3])) = 2"
    by (simp only: ex)
  with t [THEN conjunct1]
  have "submit_answers 5 quiz_store 1 1 (Some example_answers) =
     (Inr (Json 200 (Message ''Quiz submitted successfully!'')), quiz_store_submitted)"
    by (simp only: upd)
  with sc ex show ?thesis by simp
qed

text \<open>
  Claim C1 as stated fails where a correct option is the empty string: the answer
  \<open>""\<close> equals it exactly, so the claim counts 1, but the guard
  \<open>answers[id] &&\<close> reads the empty string as no answer and the stored score is 0.
\<close>

theorem submit_answers_score_counterexample:
  "exact_matches (questions blank_store) [1] blank_answers = 1
   \<and> map shuffled_questions (attempts blank_store) = [[1]]
   \<and> fst (submit_answers 5 blank_store 1 1 (Some blank_answers)) =
        Inr (Json 200 (Message ''Quiz submitted successfully!''))
   \<and> map score (attempts (snd (submit_answers 5 blank_store 1 1 (Some blank_answers)))) = [Some 0]"
  by (simp add: submit_answers_def select_started_def select_correct_def correct_map_def
      count_score_def exact_matches_def blank_store_def blank_answers_def
      example_attempt_def example_question_def example_user_def)

section \<open>Login\<close>

lemma find_by_email_None:
  assumes "e \<notin> set (map email us)"
  shows "find (\<lambda>u. Some (email u) = Some e) us = None"
  using assms by (induction us) auto

lemma find_by_email_Some:
  assumes "u \<in> set us" and "distinct (map email us)"
  shows "find (\<lambda>x. Some (email x) = Some (email u)) us = Some u"
  using assms by (induction us) auto

text \<open>
  Claim C6. A user with the role \<open>student\<close> whose \<open>quiz_status\<close> is \<open>completed\<close>
  or \<open>disqualified\<close> gets 403 from \<open>POST /login\<close> whatever password is sent and
  whatever \<open>bcrypt.compare\<close> would say of it, and \<open>sessions\<close> stays as it was.
\<close>

theorem login_finished_student_forbidden:
  assumes "u \<in> set (users db)" and "distinct (map email (users db))"
    and "role u = ''student''"
    and "quiz_status u = ''completed'' \<or> quiz_status u = ''disqualified''"
  shows "login compare now db sessions (Some (email u)) password =
           (Inr (Json 403 (Message ''Quiz already completed'')), sessions)"
proof -
  have "find (\<lambda>x. Some (email x) = Some (email u)) (users db) = Some u"
    using assms(1,2) by (rule find_by_email_Some)
  with assms(3,4) show ?thesis by (auto simp: login_def)
qed

theorem login_finished_student_forbidden_witness:
  "example_compare ''secret'' (password_hash (example_user 1 ''a@x'' ''student'' ''completed''))
   \<and> login example_compare 7 login_store Map.empty (Some ''a@x'') (Some ''secret'') =
        (Inr (Json 403 (Message ''Quiz already completed'')), Map.empty)"
proof -
  let ?u = "example_user 1 ''a@x'' ''student'' ''completed''"
  have h: "?u \<in> set (users login_store)" "distinct (map email (users login_store))"
    "role ?u = ''student''" "quiz_status ?u = ''completed'' \<or> quiz_status ?u = ''disqualified''"
    by (simp_all add: login_store_def example_user_def)
  have e: "email ?u = ''a@x''" by (simp add: example_user_def)
  have c: "example_compare ''secret'' (password_hash ?u)"
    by (simp add: example_compare_def example_user_def)
  from login_finished_student_forbidden [OF h, of example_compare 7 Map.empty "Some ''secret''"] c
  show ?thesis by (simp only: e simp_thms)
qed

text \<open>
  Claim C9, as amended. A login with an email that no user has, and a login with the
  email of a user and a password that \<open>bcrypt.compare\<close> rejects, get the same response,
  401 with \<open>Invalid login\<close>, and leave \<open>sessions\<close> as it was, provided the user is not
  a student whose \<open>quiz_status\<close> is \<open>completed\<close> or \<open>disqualified\<close>.
\<close>

theorem login_invalid_same_response:
  assumes "e \<notin> set (map email (users db))"
    and "u \<in> set (users db)" and "distinct (map email (users db))"
    and "\<not> (role u = ''student'' \<and> (quiz_status u = ''completed'' \<or> quiz_status u = ''disqualified''))"
    and "\<not> compare p (password_hash u)"
  shows "login compare now db sessions (Some e) password =
           (Inr (Json 401 (Message ''Invalid login'')), sessions)
       \<and> login compare now' db sessions (Some (email u)) (Some p) =
           (Inr (Json 401 (Message ''Invalid login'')), sessions)"
proof -
  have "find (\<lambda>x. Some (email x) = Some e) (users db) = None"
    using assms(1) by (rule find_by_email_None)
  then have a: "login compare now db sessions (Some e) password =
           (Inr (Json 401 (Message ''Invalid login'')), sessions)"
    by (simp add: login_def)
  have "find (\<lambda>x. Some (email x) = Some (email u)) (users db) = Some u"
    using assms(2,3) by (rule find_by_email_Some)
  with assms(4,5) have b: "login compare now' db sessions (Some (email u)) (Some p) =
           (Inr (Json 401 (Message ''Invalid login'')), sessions)"
    by (auto simp: login_def)
  from a b show ?thesis by blast
qed

theorem login_invalid_same_response_witness:
  "\<not> example_compare ''wrong'' (password_hash (example_user 2 ''b@x'' ''student'' ''unattempted''))
   \<and> login example_compare 7 login_store Map.empty (Some ''nobody@x'') (Some ''wrong'') =
        (Inr (Json 401 (Message ''Invalid login'')), Map.empty)
   \<and> login example_compare 7 login_store Map.empty (Some ''b@x'') (Some ''wrong'') =
        (Inr (Json 401 (Message ''Invalid login'')), Map.empty)"
proof -
  let ?u = "example_user 2 ''b@x'' ''student'' ''unattempted''"
  have h: "''nobody@x'' \<notin> set (map email (users login_store))"
    "?u \<in> set (users login_store)" "distinct (map email (users login_store))"
    "\<not> (role ?u = ''student'' \<and> (quiz_status ?u = ''completed'' \<or> quiz_status ?u = ''disqualified''))"
    "\<not> example_compare ''wrong'' (password_hash ?u)"
    by (simp_all add: login_store_def example_user_def example_compare_def)
  have e: "email ?u = ''b@x''" by (simp add: example_user_def)
  from login_invalid_same_response [where compare = example_compare and p = "''wrong''"
      and now = 7 and now' = 7 and sessions = Map.empty and password = "Some ''wrong''", OF h] h(5)
  show ?thesis by (simp only: e simp_thms)
qed

text \<open>
  Claim C9 as stated fails for a student who has completed the quiz: the status check
  comes before the password check, so a wrong password for that email gets 403 with
  \<open>Quiz already completed\<close>, while an email that no user has gets 401 with
  \<open>Invalid login\<close>.
\<close>

theorem login_invalid_same_response_counterexample:
  "''nobody@x'' \<notin> set (map email (users login_store))
   \<and> login example_compare 7 login_store Map.empty (Some ''nobody@x'') (Some ''wrong'') =
        (Inr (Json 401 (Message ''Invalid login'')), Map.empty)
   \<and> example_user 1 ''a@x'' ''student'' ''completed'' \<in> set (users login_store)
   \<and> \<not> example_compare ''wrong'' (password_hash (example_user 1 ''a@x'' ''student'' ''completed''))
   \<and> login example_compare 7 login_store Map.empty (Some ''a@x'') (Some ''wrong'') =
        (Inr (Json 403 (Message ''Quiz already completed'')), Map.empty)"
  by (simp add: login_def login_store_def example_user_def example_compare_def)

section \<open>Reading questions\<close>












section \<open>Parsing the requested ids\<close>

lemma idArray_of_tokens:
  "filter Boolean_number (map parseInt ts) =
     concat (map (\<lambda>t. case parseInt t of NaN \<Rightarrow> [] | Number n \<Rightarrow> if n = 0 then [] else [Number n]) ts)"
  by (induction ts) (auto split: jsnumber.split)

lemma idArray_of_truthy: "n \<in> set (idArray_of s) \<Longrightarrow> Boolean_number n"
  by (simp add: idArray_of_def)

lemma digit_of_zero: "digit_of 10 (CHR ''0'') = Some 0"
  by (simp add: digit_of_def)

lemma leading_digits_none:
  assumes "\<forall>c\<in>set s. digit_of 10 c = None"
  shows "leading_digits 10 s = []"
  using assms by (cases s) (simp_all add: leading_digits_def)

lemma parseInt_no_digit:
  assumes "\<forall>c\<in>set t. digit_of 10 c = None"
  shows "parseInt t = NaN"
proof -
  let ?s1 = "dropWhile is_space t"
  let ?s2 = "case ?s1 of c # r \<Rightarrow> if c = CHR ''-'' \<or> c = CHR ''+'' then r else ?s1 | [] \<Rightarrow> ?s1"
  have s1: "\<forall>c\<in>set ?s1. digit_of 10 c = None"
    using assms set_dropWhileD by fast
  have "set (case xs of c # r \<Rightarrow> if c = CHR ''-'' \<or> c = CHR ''+'' then r else xs | [] \<Rightarrow> xs)
          \<subseteq> set xs" for xs :: string
    by (cases xs) auto
  with s1 have s2: "\<forall>c\<in>set ?s2. digit_of 10 c = None"
    by blast
  have nohex: "\<not> (case ?s2 of c # x # r \<Rightarrow> c = CHR ''0'' \<and> (x = CHR ''x'' \<or> x = CHR ''X'') | _ \<Rightarrow> False)"
  proof (cases ?s2)
    case Nil
    then show ?thesis by simp
  next
    case (Cons c r)
    with s2 have "digit_of 10 c = None" by simp
    with digit_of_zero have "c \<noteq> CHR ''0''" by auto
    with Cons show ?thesis by (cases r) simp_all
  qed
  have "leading_digits 10 ?s2 = []"
    using s2 by (rule leading_digits_none)
  with nohex show ?thesis by (simp add: parseInt_def Let_def)
qed

lemma ordered_rows_requested:
  assumes "r \<in> set (ordered_rows idArray rows)"
  shows "Number (q_id r) \<in> set idArray"
proof -
  from assms obtain n where n: "n \<in> set idArray"
    and f: "find (\<lambda>q. Number (q_id q) = n) rows = Some r"
    by (auto simp: ordered_rows_def)
  from f have "Number (q_id r) = n" by (auto simp: find_Some_iff)
  with n show ?thesis by simp
qed

text \<open>
  Claim C10. The id list of \<open>GET /questions\<close> is made token by token, in order: a token
  that \<open>parseInt\<close> reads as \<open>NaN\<close> or as 0 adds nothing, any other token adds its
  number. A token with no decimal digit in it reads as \<open>NaN\<close>. So neither \<open>NaN\<close> nor 0
  is ever requested, and no row of a response has the id 0, whatever the store holds
  and whatever rows it returns.
\<close>

theorem get_questions_never_id_zero:
  "idArray_of s =
     concat (map (\<lambda>t. case parseInt t of NaN \<Rightarrow> [] | Number n \<Rightarrow> if n = 0 then [] else [Number n])
               (split_comma s))
   \<and> NaN \<notin> set (idArray_of s) \<and> Number 0 \<notin> set (idArray_of s)
   \<and> ((\<forall>c\<in>set t. digit_of 10 c = None) \<longrightarrow> parseInt t = NaN)
   \<and> (get_questions row_order db (Some s) = Inr (Json 200 (QuestionsBody rows)) \<longrightarrow>
        (\<forall>r\<in>set rows. q_id r \<noteq> 0))"
proof -
  have a: "idArray_of s =
     concat (map (\<lambda>t. case parseInt t of NaN \<Rightarrow> [] | Number n \<Rightarrow> if n = 0 then [] else [Number n])
               (split_comma s))"
    unfolding idArray_of_def by (rule idArray_of_tokens)
  have b: "NaN \<notin> set (idArray_of s)" and c: "Number 0 \<notin> set (idArray_of s)"
    using idArray_of_truthy [of _ s] by fastforce+
  have d: "(\<forall>c\<in>set t. digit_of 10 c = None) \<longrightarrow> parseInt t = NaN"
    using parseInt_no_digit by blast
  have e: "get_questions row_order db (Some s) = Inr (Json 200 (QuestionsBody rows)) \<longrightarrow>
        (\<forall>r\<in>set rows. q_id r \<noteq> 0)"
  proof (intro impI ballI)
    fix r
    assume g: "get_questions row_order db (Some s) = Inr (Json 200 (QuestionsBody rows))"
      and r: "r \<in> set rows"
    from g obtain rs where "rows = ordered_rows (idArray_of s) rs"
      by (auto simp: get_questions_def Let_def split: sum.splits)
    with r have "Number (q_id r) \<in> set (idArray_of s)"
      using ordered_rows_requested by blast
    with c show "q_id r \<noteq> 0" by auto
  qed
  from a b c d e show ?thesis by blast
qed

lemma idArray_zero_example: "idArray_of ''0,abc,7'' = [Number 7]"
  by code_simp

theorem get_questions_never_id_zero_witness:
  "parseInt ''abc'' = NaN
   \<and> idArray_of ''0,abc,7'' = [Number 7]
   \<and> 0 \<in> set (map q_id (questions zero_store))
   \<and> get_questions (\<lambda>xs. xs) zero_store (Some ''0,abc,7'') =
        Inr (Json 200 (QuestionsBody [question_row.truncate (example_question 7 ''B'')]))
   \<and> q_id (question_row.truncate (example_question 7 ''B'')) \<noteq> 0"
proof -
  note t = get_questions_never_id_zero [where s = "''0,abc,7''" and t = "''abc''"
      and row_order = "\<lambda>xs. xs" and db = zero_store
      and rows = "[question_row.truncate (example_question 7 ''B'')]"]
  have nd: "\<forall>c\<in>set ''abc''. digit_of 10 c = None"
    by (simp add: digit_of_def)
  have z: "0 \<in> set (map q_id (questions zero_store))"
    by (simp add: zero_store_def example_question_def)
  have g: "get_questions (\<lambda>xs. xs) zero_store (Some ''0,abc,7'') =
        Inr (Json 200 (QuestionsBody [question_row.truncate (example_question 7 ''B'')]))"
    by (simp add: get_questions_def idArray_zero_example select_questions_def ordered_rows_def
        zero_store_def example_question_def question_row.truncate_def)
  from t nd have p: "parseInt ''abc'' = NaN" by blast
  from t g have "\<forall>r\<in>set [question_row.truncate (example_question 7 ''B'')]. q_id r \<noteq> 0"
    by blast
  then have q: "q_id (question_row.truncate (example_question 7 ''B'')) \<noteq> 0" by simp
  from p idArray_zero_example z g q show ?thesis by blast
qed

end
